theory Spec2Isabelle
  imports Main "HOL-Library.FSet"
begin

section \<open>Event management backend: the event routes and the socket handlers\<close>

text \<open>
  The development embeds the Express router of the event routes (GET, POST, PUT and DELETE
  on events, POST join and leave) and the Socket.IO connection handlers of \<^verbatim>\<open>index.js\<close>.
  A handler is a function from the server state to the new state and the HTTP response.
  The state holds the event collection, the user collection, the rooms of the Socket.IO
  adapter and the log of the messages emitted so far. The handlers of one request run to completion, one after
  the other; the store is taken to be reachable.
\<close>

subsection \<open>Identifiers\<close>

text \<open>
  The store library casts the \<^verbatim>\<open>_id\<close> of a query to an ObjectId, which is written as
  24 hexadecimal digits, in either case. A string that does not cast raises a CastError
  whose \<^verbatim>\<open>kind\<close> is \<^verbatim>\<open>'ObjectId'\<close>: the kind that the handler of GET /:id tests for.
  An \<open>objectid\<close> holds the digits in lower case. User identifiers reach the handlers
  through the auth middleware as \<^verbatim>\<open>req.userId\<close> and are ObjectIds as well.
\<close>

datatype objectid = ObjectId string

definition hexdigit :: "char \<Rightarrow> bool" where
  "hexdigit c \<longleftrightarrow> c \<in> set ''0123456789abcdefABCDEF''"

definition lower :: "char \<Rightarrow> char" where
  "lower c =
     (if c = CHR ''A'' then CHR ''a'' else if c = CHR ''B'' then CHR ''b''
      else if c = CHR ''C'' then CHR ''c'' else if c = CHR ''D'' then CHR ''d''
      else if c = CHR ''E'' then CHR ''e'' else if c = CHR ''F'' then CHR ''f''
      else c)"

definition castObjectId :: "string \<Rightarrow> objectid option" where
  "castObjectId s =
     (if length s = 24 \<and> list_all hexdigit s then Some (ObjectId (map lower s)) else None)"

subsection \<open>Documents and request bodies\<close>

text \<open>
  The fields of an event document. The attendees and the creator are references to users,
  stored as identifiers. A date is a number of milliseconds. The collection maps the
  \<^verbatim>\<open>_id\<close> of a document to its fields, and a document in the hands of a handler is the
  pair of the two.
\<close>

record event =
  title :: string
  description :: "string option"
  date :: int
  location :: string
  category :: string
  capacity :: int
  imageUrl :: "string option"
  creator :: objectid
  attendees :: "objectid list"

type_synonym document = "objectid \<times> event"

type_synonym collection = "objectid \<rightharpoonup> event"

text \<open>
  A user document, with the two fields that the handlers select when they populate a
  reference. The user collection is written by the auth routes.
\<close>

record user =
  username :: string
  email :: string

text \<open>
  \<^verbatim>\<open>.populate('attendees', 'username email')\<close> replaces every attendee whose user document
  exists by that document and leaves the others out. The handlers of join and leave read
  the \<^verbatim>\<open>_id\<close> of the populated attendees and their number, so the populated array is
  represented by the identifiers of the documents found. The JSON of a response or of a
  message carries the document as it is stored; how a populated reference is rendered
  there is not modelled.
\<close>

definition populate_attendees :: "(objectid \<rightharpoonup> user) \<Rightarrow> objectid list \<Rightarrow> objectid list" where
  "populate_attendees us as = filter (\<lambda>attendee. us attendee \<noteq> None) as"

text \<open>
  The JSON body of a request: every key is present with a value of its type, or absent.
  POST / reads the first seven keys; PUT /:id assigns every key of the body to the document.
\<close>

record body =
  b_title :: "string option"
  b_description :: "string option"
  b_date :: "int option"
  b_location :: "string option"
  b_category :: "string option"
  b_capacity :: "int option"
  b_imageUrl :: "string option"
  b_creator :: "objectid option"
  b_attendees :: "objectid list option"

subsection \<open>Responses and emitted messages\<close>

datatype store_error = CastError string | ValidationError | DuplicateKey

fun kind :: "store_error \<Rightarrow> string option" where
  "kind (CastError k) = Some k"
| "kind ValidationError = None"
| "kind DuplicateKey = None"

text \<open>
  The JSON of a response: \<open>Message m\<close> is \<^verbatim>\<open>{ message: m }\<close>, \<open>ServerError e\<close> is
  \<^verbatim>\<open>{ message: 'Server error', error: e.message }\<close>, the next two are an event
  document, alone or with the \<^verbatim>\<open>currentViewers\<close> key added, and \<open>Null\<close> is what a
  query that finds nothing serialises to.
\<close>

datatype json =
    Message string
  | ServerError store_error
  | EventDoc document
  | EventWithViewers document nat
  | Null

datatype response = Response (status: nat) (json: json)

text \<open>
  A message goes to every connected client (\<^verbatim>\<open>io.emit\<close>) or to the members of one room
  (\<^verbatim>\<open>io.to(room).emit\<close>). \<open>ViewerUpdate e v t\<close> is the object
  \<^verbatim>\<open>{ eventId: e, viewers: v, timestamp: t }\<close>.
\<close>

datatype target = ToAll | ToRoom string

datatype payload =
    EventPayload document
  | NullPayload
  | EventViewersPayload document nat
  | DeletedId string
  | ViewerUpdate string nat int

datatype emission = Emit target string payload

subsection \<open>The server state\<close>

record server =
  events :: collection
  users :: "objectid \<rightharpoonup> user"
  rooms :: "string \<rightharpoonup> string fset"
  emitted :: "emission list"

definition emit :: "target \<Rightarrow> string \<Rightarrow> payload \<Rightarrow> server \<Rightarrow> server" where
  "emit t name p s = s\<lparr>emitted := emitted s @ [Emit t name p]\<rparr>"

text \<open>\<^verbatim>\<open>io.sockets.adapter.rooms.get(room)?.size || 0\<close>\<close>

definition room_size :: "server \<Rightarrow> string \<Rightarrow> nat" where
  "room_size s room = (case rooms s room of None \<Rightarrow> 0 | Some members \<Rightarrow> fcard members)"

subsection \<open>The event collection\<close>

definition fetch :: "collection \<Rightarrow> objectid \<Rightarrow> document option" where
  "fetch c oid = (case c oid of None \<Rightarrow> None | Some ev \<Rightarrow> Some (oid, ev))"

definition findById :: "collection \<Rightarrow> string \<Rightarrow> store_error + document option" where
  "findById c rid =
     (case castObjectId rid of
        None \<Rightarrow> Inl (CastError ''ObjectId'')
      | Some oid \<Rightarrow> Inr (fetch c oid))"

text \<open>\<^verbatim>\<open>Event.findOne({ _id: rid, creator: uid })\<close>\<close>

definition findOne :: "collection \<Rightarrow> string \<Rightarrow> objectid \<Rightarrow> store_error + document option" where
  "findOne c rid uid =
     (case castObjectId rid of
        None \<Rightarrow> Inl (CastError ''ObjectId'')
      | Some oid \<Rightarrow>
          Inr (case c oid of
                 None \<Rightarrow> None
               | Some ev \<Rightarrow> if creator ev = uid then Some (oid, ev) else None))"

text \<open>
  Modelled from the spec: the schema of the Event model (\<^verbatim>\<open>models/Event\<close>) is not among the
  sources. The specification names the required fields, title, date, location, category
  and capacity, and has a create fail when one of them is missing. What the validators of
  the schema ask of the values of the fields is not known (the specification gives the
  capacity as a positive integer): the properties below rest on the failure for a missing
  field, and on the acceptance of a body only where they assume that the create succeeded.
\<close>

definition required_present :: "body \<Rightarrow> bool" where
  "required_present b \<longleftrightarrow>
     b_title b \<noteq> None \<and> b_date b \<noteq> None \<and> b_location b \<noteq> None \<and>
     b_category b \<noteq> None \<and> b_capacity b \<noteq> None"

text \<open>
  \<^verbatim>\<open>new Event({ title, ..., imageUrl, creator: req.userId, attendees: [req.userId] })\<close>,
  for a body whose required fields are present. The constructor also generates the
  \<^verbatim>\<open>_id\<close> of the document, which the handler receives as \<open>nid\<close>.
\<close>

definition new_Event :: "body \<Rightarrow> objectid \<Rightarrow> event" where
  "new_Event b uid =
     \<lparr>title = the (b_title b), description = b_description b,
      date = the (b_date b), location = the (b_location b), category = the (b_category b),
      capacity = the (b_capacity b), imageUrl = b_imageUrl b,
      creator = uid, attendees = [uid]\<rparr>"

text \<open>
  Saving a new document validates it and inserts it under its identifier; an identifier
  that is taken already is a duplicate key.
\<close>

definition save_new :: "collection \<Rightarrow> body \<Rightarrow> objectid \<Rightarrow> objectid \<Rightarrow> store_error + collection" where
  "save_new c b uid nid =
     (if \<not> required_present b then Inl ValidationError
      else if c nid \<noteq> None then Inl DuplicateKey
      else Inr (c(nid \<mapsto> new_Event b uid)))"

text \<open>Saving a document that was read from the collection writes it back.\<close>

definition save :: "collection \<Rightarrow> document \<Rightarrow> collection" where
  "save c d = c(fst d \<mapsto> snd d)"

text \<open>\<^verbatim>\<open>Object.assign(event, req.body)\<close>: every key of the body overwrites the document's.\<close>

definition assign :: "event \<Rightarrow> body \<Rightarrow> event" where
  "assign ev b =
     ev\<lparr>title := (case b_title b of None \<Rightarrow> title ev | Some v \<Rightarrow> v),
        description := (case b_description b of None \<Rightarrow> description ev | Some v \<Rightarrow> Some v),
        date := (case b_date b of None \<Rightarrow> date ev | Some v \<Rightarrow> v),
        location := (case b_location b of None \<Rightarrow> location ev | Some v \<Rightarrow> v),
        category := (case b_category b of None \<Rightarrow> category ev | Some v \<Rightarrow> v),
        capacity := (case b_capacity b of None \<Rightarrow> capacity ev | Some v \<Rightarrow> v),
        imageUrl := (case b_imageUrl b of None \<Rightarrow> imageUrl ev | Some v \<Rightarrow> Some v),
        creator := (case b_creator b of None \<Rightarrow> creator ev | Some v \<Rightarrow> v),
        attendees := (case b_attendees b of None \<Rightarrow> attendees ev | Some v \<Rightarrow> v)\<rparr>"

subsection \<open>The routes\<close>

text \<open>GET /:id\<close>

definition get_event :: "server \<Rightarrow> string \<Rightarrow> server \<times> response" where
  "get_event s rid =
     (case findById (events s) rid of
        Inl error \<Rightarrow>
          if kind error = Some ''ObjectId'' then (s, Response 404 (Message ''Event not found''))
          else (s, Response 500 (ServerError error))
      | Inr None \<Rightarrow> (s, Response 404 (Message ''Event not found''))
      | Inr (Some event) \<Rightarrow>
          (let viewers = room_size s rid
           in (emit (ToRoom rid) ''eventUpdated'' (EventViewersPayload event viewers) s,
               Response 200 (EventWithViewers event viewers))))"

text \<open>POST /, behind the auth middleware, which sets \<^verbatim>\<open>req.userId\<close>\<close>

definition post_event :: "server \<Rightarrow> body \<Rightarrow> objectid \<Rightarrow> objectid \<Rightarrow> server \<times> response" where
  "post_event s b uid nid =
     (case save_new (events s) b uid nid of
        Inl error \<Rightarrow> (s, Response 500 (ServerError error))
      | Inr c \<Rightarrow>
          \<comment> \<open>\<^verbatim>\<open>Event.findById(event._id)\<close>, the identifier being an ObjectId already\<close>
          (case fetch c nid of
             None \<Rightarrow> (emit ToAll ''eventUpdated'' NullPayload (s\<lparr>events := c\<rparr>), Response 201 Null)
           | Some populatedEvent \<Rightarrow>
               (emit ToAll ''eventUpdated'' (EventPayload populatedEvent) (s\<lparr>events := c\<rparr>),
                Response 201 (EventDoc populatedEvent))))"

text \<open>PUT /:id\<close>

definition put_event :: "server \<Rightarrow> string \<Rightarrow> objectid \<Rightarrow> body \<Rightarrow> server \<times> response" where
  "put_event s rid uid b =
     (case findOne (events s) rid uid of
        Inl error \<Rightarrow> (s, Response 500 (ServerError error))
      | Inr None \<Rightarrow> (s, Response 404 (Message ''Event not found or unauthorized''))
      | Inr (Some (oid, ev)) \<Rightarrow>
          (let event = (oid, assign ev b)
           in (emit (ToRoom rid) ''eventUpdated'' (EventPayload event)
                 (s\<lparr>events := save (events s) event\<rparr>),
               Response 200 (EventDoc event))))"

text \<open>DELETE /:id, with \<^verbatim>\<open>Event.findOneAndDelete({ _id: rid, creator: uid })\<close>\<close>

definition delete_event :: "server \<Rightarrow> string \<Rightarrow> objectid \<Rightarrow> server \<times> response" where
  "delete_event s rid uid =
     (case findOne (events s) rid uid of
        Inl error \<Rightarrow> (s, Response 500 (ServerError error))
      | Inr None \<Rightarrow> (s, Response 404 (Message ''Event not found or unauthorized''))
      | Inr (Some (oid, ev)) \<Rightarrow>
          (emit ToAll ''eventDeleted'' (DeletedId rid)
             (s\<lparr>events := (events s)(oid := None)\<rparr>),
           Response 200 (Message ''Event deleted successfully'')))"

text \<open>
  POST /:id/join. The two tests read the populated attendees; the push and the save append
  the caller to the stored array.
\<close>

definition post_join :: "server \<Rightarrow> string \<Rightarrow> objectid \<Rightarrow> server \<times> response" where
  "post_join s rid uid =
     (case findById (events s) rid of
        Inl error \<Rightarrow> (s, Response 500 (ServerError error))
      | Inr None \<Rightarrow> (s, Response 404 (Message ''Event not found''))
      | Inr (Some (oid, ev)) \<Rightarrow>
          (let populated = populate_attendees (users s) (attendees ev)
           in if list_ex (\<lambda>attendee. attendee = uid) populated
              then (s, Response 400 (Message ''Already joined this event''))
              else if int (length populated) \<ge> capacity ev
              then (s, Response 400 (Message ''Event is full''))
              else
            (let c = save (events s) (oid, ev\<lparr>attendees := attendees ev @ [uid]\<rparr>)
             in case findById c rid of
                  Inl error \<Rightarrow> (s\<lparr>events := c\<rparr>, Response 500 (ServerError error))
                | Inr None \<Rightarrow>
                    (emit (ToRoom rid) ''eventUpdated'' NullPayload (s\<lparr>events := c\<rparr>),
                     Response 200 Null)
                | Inr (Some updatedEvent) \<Rightarrow>
                    (emit (ToRoom rid) ''eventUpdated'' (EventPayload updatedEvent)
                       (s\<lparr>events := c\<rparr>),
                     Response 200 (EventDoc updatedEvent)))))"

text \<open>
  POST /:id/leave. The filtered array of populated attendees is assigned to the document,
  so the save stores the identifiers of the attendees that were found, less the caller.
\<close>

definition post_leave :: "server \<Rightarrow> string \<Rightarrow> objectid \<Rightarrow> server \<times> response" where
  "post_leave s rid uid =
     (case findById (events s) rid of
        Inl error \<Rightarrow> (s, Response 500 (ServerError error))
      | Inr None \<Rightarrow> (s, Response 404 (Message ''Event not found''))
      | Inr (Some (oid, ev)) \<Rightarrow>
          (let populated = populate_attendees (users s) (attendees ev)
           in if \<not> list_ex (\<lambda>attendee. attendee = uid) populated
              then (s, Response 400 (Message ''Not joined this event''))
              else
            (let c = save (events s)
                       (oid, ev\<lparr>attendees := filter (\<lambda>attendee. attendee \<noteq> uid) populated\<rparr>)
             in case findById c rid of
                  Inl error \<Rightarrow> (s\<lparr>events := c\<rparr>, Response 500 (ServerError error))
                | Inr None \<Rightarrow>
                    (emit (ToRoom rid) ''eventUpdated'' NullPayload (s\<lparr>events := c\<rparr>),
                     Response 200 Null)
                | Inr (Some updatedEvent) \<Rightarrow>
                    (emit (ToRoom rid) ''eventUpdated'' (EventPayload updatedEvent)
                       (s\<lparr>events := c\<rparr>),
                     Response 200 (EventDoc updatedEvent)))))"

text \<open>
  The requests of the event routes, with what the middleware and the document constructor
  supply: the authenticated user and, for POST /, the generated identifier.
\<close>

datatype request =
    GetEvent string
  | PostEvent body objectid objectid
  | PutEvent string objectid body
  | DeleteEvent string objectid
  | PostJoin string objectid
  | PostLeave string objectid

fun route :: "server \<Rightarrow> request \<Rightarrow> server \<times> response" where
  "route s (GetEvent rid) = get_event s rid"
| "route s (PostEvent b uid nid) = post_event s b uid nid"
| "route s (PutEvent rid uid b) = put_event s rid uid b"
| "route s (DeleteEvent rid uid) = delete_event s rid uid"
| "route s (PostJoin rid uid) = post_join s rid uid"
| "route s (PostLeave rid uid) = post_leave s rid uid"

subsection \<open>The socket handlers\<close>

text \<open>
  \<^verbatim>\<open>socket.join(room)\<close> adds the socket's identifier to the set of the room, which the
  adapter creates when the room is new; \<^verbatim>\<open>socket.leave(room)\<close> removes it and drops a room
  that became empty.
\<close>

definition socket_join :: "(string \<rightharpoonup> string fset) \<Rightarrow> string \<Rightarrow> string \<Rightarrow> (string \<rightharpoonup> string fset)" where
  "socket_join rs sid room =
     rs(room \<mapsto> (case rs room of None \<Rightarrow> {|sid|} | Some members \<Rightarrow> finsert sid members))"

definition socket_leave :: "(string \<rightharpoonup> string fset) \<Rightarrow> string \<Rightarrow> string \<Rightarrow> (string \<rightharpoonup> string fset)" where
  "socket_leave rs sid room =
     (case rs room of
        None \<Rightarrow> rs
      | Some members \<Rightarrow>
          if members |-| {|sid|} = {||} then rs(room := None)
          else rs(room \<mapsto> members |-| {|sid|}))"

text \<open>
  \<^verbatim>\<open>socket.on('joinEvent', ...)\<close> for the socket \<open>sid\<close> and a room name sent as a string;
  \<open>now\<close> is the value of \<^verbatim>\<open>new Date()\<close>.
\<close>

definition on_joinEvent :: "server \<Rightarrow> string \<Rightarrow> string \<Rightarrow> int \<Rightarrow> server" where
  "on_joinEvent s sid eventId now =
     (let s' = s\<lparr>rooms := socket_join (rooms s) sid eventId\<rparr>;
          viewers = room_size s' eventId
      in emit (ToRoom eventId) ''viewerUpdate'' (ViewerUpdate eventId viewers now) s')"

text \<open>\<^verbatim>\<open>socket.on('leaveEvent', ...)\<close>\<close>

definition on_leaveEvent :: "server \<Rightarrow> string \<Rightarrow> string \<Rightarrow> int \<Rightarrow> server" where
  "on_leaveEvent s sid eventId now =
     (let s' = s\<lparr>rooms := socket_leave (rooms s) sid eventId\<rparr>;
          viewers = room_size s' eventId
      in emit (ToRoom eventId) ''viewerUpdate'' (ViewerUpdate eventId viewers now) s')"

text \<open>Whether a request is an update whose body carries the \<^verbatim>\<open>creator\<close> key.\<close>

fun assigns_creator :: "request \<Rightarrow> bool" where
  "assigns_creator (PutEvent rid uid b) = (b_creator b \<noteq> None)"
| "assigns_creator _ = False"

subsection \<open>Sample data\<close>

definition alice :: objectid where
  "alice = ObjectId ''507f1f77bcf86cd799439011''"

definition bob :: objectid where
  "bob = ObjectId ''507f1f77bcf86cd799439012''"

definition carol :: objectid where
  "carol = ObjectId ''507f1f77bcf86cd799439013''"


definition people :: "objectid \<rightharpoonup> user" where
  "people =
     [alice \<mapsto> \<lparr>username = ''alice'', email = ''alice@example.org''\<rparr>,
      bob \<mapsto> \<lparr>username = ''bob'', email = ''bob@example.org''\<rparr>,
      carol \<mapsto> \<lparr>username = ''carol'', email = ''carol@example.org''\<rparr>]"

definition meetup_id :: objectid where
  "meetup_id = ObjectId ''64b7f0c2a1d3e4f5a6b7c8d9''"

definition meetup_rid :: string where
  "meetup_rid = ''64b7f0c2a1d3e4f5a6b7c8d9''"

definition meetup_body :: body where
  "meetup_body =
     \<lparr>b_title = Some ''Meetup'', b_description = None, b_date = Some 1700000000000,
      b_location = Some ''Pune'', b_category = Some ''tech'', b_capacity = Some 2,
      b_imageUrl = None, b_creator = None, b_attendees = None\<rparr>"

definition meetup :: event where
  "meetup =
     \<lparr>title = ''Meetup'', description = None, date = 1700000000000, location = ''Pune'',
      category = ''tech'', capacity = 2, imageUrl = None, creator = alice,
      attendees = [alice]\<rparr>"

text \<open>A body that carries the \<^verbatim>\<open>creator\<close> key alone, and one that carries a new title.\<close>

definition takeover_body :: body where
  "takeover_body =
     \<lparr>b_title = None, b_description = None, b_date = None, b_location = None,
      b_category = None, b_capacity = None, b_imageUrl = None, b_creator = Some bob,
      b_attendees = None\<rparr>"

definition retitle_body :: body where
  "retitle_body =
     \<lparr>b_title = Some ''Workshop'', b_description = None, b_date = None, b_location = None,
      b_category = None, b_capacity = None, b_imageUrl = None, b_creator = None,
      b_attendees = None\<rparr>"



definition no_events :: server where
  "no_events = \<lparr>events = Map.empty, users = people, rooms = Map.empty, emitted = []\<rparr>"

definition one_event :: server where
  "one_event =
     \<lparr>events = [meetup_id \<mapsto> meetup], users = people, rooms = Map.empty, emitted = []\<rparr>"


section \<open>Properties\<close>

subsection \<open>Casting of the sample identifiers\<close>

lemma cast_meetup_rid: "castObjectId meetup_rid = Some meetup_id"
  by (simp add: castObjectId_def meetup_rid_def meetup_id_def hexdigit_def lower_def)

lemma cast_abc: "castObjectId ''abc'' = None"
  by (simp add: castObjectId_def)

subsection \<open>Populated attendees\<close>




subsection \<open>Joining\<close>







subsection \<open>Creating\<close>



text \<open>
  Claim C6, as the code has it. A create whose body lacks one of the required fields does
  not answer with a validation outcome of its own: the error of the save is caught by the
  handler's only catch clause, and the response is the server error of every other
  failure, status 500 with the message "Server error". Nothing is stored or published.
\<close>

theorem create_missing_required_is_server_error:
  assumes "b_title b = None \<or> b_date b = None \<or> b_location b = None
     \<or> b_category b = None \<or> b_capacity b = None"
  shows "post_event s b uid nid = (s, Response 500 (ServerError ValidationError))"
  using assms by (auto simp add: post_event_def save_new_def required_present_def)

theorem create_missing_required_is_server_error_witness:
  "post_event one_event (meetup_body\<lparr>b_capacity := None\<rparr>) bob carol =
     (one_event, Response 500 (ServerError ValidationError))"
proof -
  have "b_capacity (meetup_body\<lparr>b_capacity := None\<rparr>) = None"
    by simp
  then show ?thesis
    using create_missing_required_is_server_error
      [of "meetup_body\<lparr>b_capacity := None\<rparr>" one_event bob carol]
    by simp
qed

text \<open>
  Claim C6, as stated, at a body without a title: the response has status 500 and is the
  generic server error, not a validation failure of its own kind.
\<close>

theorem create_without_title_counterexample:
  "post_event no_events (meetup_body\<lparr>b_title := None\<rparr>) alice meetup_id =
     (no_events, Response 500 (ServerError ValidationError))"
  by (simp add: post_event_def save_new_def required_present_def meetup_body_def)

subsection \<open>Deleting\<close>

text \<open>
  Claim C4. A delete by a caller who is not the creator of the event fails with status
  404, "Event not found or unauthorized", the answer for an absent event as well; the state
  is unchanged, and a GET of the event afterwards returns it as it was.
\<close>

theorem delete_by_non_creator:
  assumes "castObjectId rid = Some oid" and "events s oid = Some ev"
    and "creator ev \<noteq> uid"
  shows "delete_event s rid uid =
       (s, Response 404 (Message ''Event not found or unauthorized''))
     \<and> snd (get_event (fst (delete_event s rid uid)) rid) =
         Response 200 (EventWithViewers (oid, ev) (room_size s rid))"
  using assms
  by (simp add: delete_event_def findOne_def get_event_def findById_def fetch_def Let_def)

theorem delete_by_non_creator_witness:
  "delete_event one_event meetup_rid bob =
       (one_event, Response 404 (Message ''Event not found or unauthorized''))
     \<and> snd (get_event (fst (delete_event one_event meetup_rid bob)) meetup_rid) =
         Response 200 (EventWithViewers (meetup_id, meetup) (room_size one_event meetup_rid))"
proof -
  have ev: "events one_event meetup_id = Some meetup"
    by (simp add: one_event_def)
  have "creator meetup \<noteq> bob"
    by (simp add: meetup_def alice_def bob_def)
  from delete_by_non_creator [OF cast_meetup_rid ev this] show ?thesis .
qed

subsection \<open>The creator of a stored event\<close>

lemma get_event_events: "events (fst (get_event s rid)) = events s"
  by (simp add: get_event_def emit_def Let_def split: sum.splits option.splits)

lemma post_event_creator:
  assumes "events s oid = Some ev" and "events (fst (post_event s b uid nid)) oid = Some ev'"
  shows "creator ev' = creator ev"
  using assms
  by (auto simp add: post_event_def save_new_def fetch_def emit_def
      split: if_splits option.splits)

lemma put_event_creator:
  assumes "events s oid = Some ev" and "events (fst (put_event s rid uid b)) oid = Some ev'"
    and "b_creator b = None"
  shows "creator ev' = creator ev"
  using assms
  by (auto simp add: put_event_def findOne_def save_def assign_def emit_def Let_def
      split: if_splits option.splits)

lemma delete_event_creator:
  assumes "events s oid = Some ev" and "events (fst (delete_event s rid uid)) oid = Some ev'"
  shows "creator ev' = creator ev"
  using assms
  by (auto simp add: delete_event_def findOne_def emit_def split: if_splits option.splits)

lemma post_join_creator:
  assumes "events s oid = Some ev" and "events (fst (post_join s rid uid)) oid = Some ev'"
  shows "creator ev' = creator ev"
  using assms
  by (auto simp add: post_join_def findById_def fetch_def save_def emit_def Let_def
      split: if_splits option.splits)

lemma post_leave_creator:
  assumes "events s oid = Some ev" and "events (fst (post_leave s rid uid)) oid = Some ev'"
  shows "creator ev' = creator ev"
  using assms
  by (auto simp add: post_leave_def findById_def fetch_def save_def emit_def Let_def
      split: if_splits option.splits)

text \<open>
  Claim C5, as the code has it. No request of the event routes changes the creator of a
  stored event, except an update whose body carries the \<^verbatim>\<open>creator\<close> key: the update
  assigns every key of the body to the document.
\<close>

theorem creator_kept_without_creator_key:
  assumes "events s oid = Some ev" and "events (fst (route s r)) oid = Some ev'"
    and "\<not> assigns_creator r"
  shows "creator ev' = creator ev"
proof (cases r)
  case (GetEvent rid)
  with assms show ?thesis by (simp add: get_event_events)
next
  case (PostEvent b uid nid)
  with assms show ?thesis by (auto dest: post_event_creator)
next
  case (PutEvent rid uid b)
  with assms show ?thesis by (auto dest: put_event_creator)
next
  case (DeleteEvent rid uid)
  with assms show ?thesis by (auto dest: delete_event_creator)
next
  case (PostJoin rid uid)
  with assms show ?thesis by (auto dest: post_join_creator)
next
  case (PostLeave rid uid)
  with assms show ?thesis by (auto dest: post_leave_creator)
qed

theorem creator_kept_without_creator_key_witness:
  "events (fst (route one_event (PutEvent meetup_rid alice retitle_body))) meetup_id =
     Some (meetup\<lparr>title := ''Workshop''\<rparr>)
   \<and> creator (meetup\<lparr>title := ''Workshop''\<rparr>) = creator meetup"
proof -
  have before: "events one_event meetup_id = Some meetup"
    by (simp add: one_event_def)
  have after: "events (fst (route one_event (PutEvent meetup_rid alice retitle_body))) meetup_id =
      Some (meetup\<lparr>title := ''Workshop''\<rparr>)"
    using cast_meetup_rid
    by (simp add: put_event_def findOne_def save_def assign_def emit_def one_event_def
        meetup_def retitle_body_def Let_def)
  have "\<not> assigns_creator (PutEvent meetup_rid alice retitle_body)"
    by (simp add: retitle_body_def)
  from creator_kept_without_creator_key [OF before after this] after show ?thesis
    by simp
qed

text \<open>
  Claim C5, as stated, at an update by the creator whose body is \<^verbatim>\<open>{ creator: bob }\<close>: the
  stored creator was alice before the request and is bob after it.
\<close>

theorem update_overwrites_creator_counterexample:
  "map_option creator (events one_event meetup_id) = Some alice
   \<and> map_option creator
       (events (fst (route one_event (PutEvent meetup_rid alice takeover_body))) meetup_id) =
       Some bob
   \<and> alice \<noteq> bob"
  using cast_meetup_rid
  by (simp add: put_event_def findOne_def save_def assign_def emit_def one_event_def
      meetup_def takeover_body_def alice_def bob_def Let_def)

subsection \<open>Malformed identifiers\<close>

text \<open>
  Claim C7, at the identifier \<^verbatim>\<open>abc\<close>, which is no ObjectId. GET /:id tests the kind of the
  cast error and answers 404, "Event not found". The handlers of join and leave have no such
  test, nor have those of update and delete: their catch clause answers 500, "Server error".
\<close>

theorem malformed_id_get_404_join_500:
  "get_event s ''abc'' = (s, Response 404 (Message ''Event not found''))
   \<and> post_join s ''abc'' uid = (s, Response 500 (ServerError (CastError ''ObjectId'')))
   \<and> post_leave s ''abc'' uid = (s, Response 500 (ServerError (CastError ''ObjectId'')))
   \<and> put_event s ''abc'' uid b = (s, Response 500 (ServerError (CastError ''ObjectId'')))
   \<and> delete_event s ''abc'' uid = (s, Response 500 (ServerError (CastError ''ObjectId'')))"
  using cast_abc
  by (simp add: get_event_def post_join_def post_leave_def put_event_def delete_event_def
      findById_def findOne_def)

subsection \<open>Leaving\<close>





subsection \<open>Viewers of a room\<close>

text \<open>
  Claim C9. On \<^verbatim>\<open>joinEvent\<close> the socket is added to the members of the room, and then one
  \<^verbatim>\<open>viewerUpdate\<close> message goes to that room, carrying the room (key \<^verbatim>\<open>eventId\<close>), the
  number of its members after the join (key \<^verbatim>\<open>viewers\<close>) and the time. The events are
  untouched.
\<close>

theorem joinEvent_publishes_viewer_count:
  "rooms (on_joinEvent s sid room now) =
     (rooms s)(room \<mapsto> finsert sid (case rooms s room of None \<Rightarrow> {||} | Some members \<Rightarrow> members))
   \<and> room_size (on_joinEvent s sid room now) room =
       fcard (finsert sid (case rooms s room of None \<Rightarrow> {||} | Some members \<Rightarrow> members))
   \<and> emitted (on_joinEvent s sid room now) =
       emitted s @
       [Emit (ToRoom room) ''viewerUpdate''
          (ViewerUpdate room (room_size (on_joinEvent s sid room now) room) now)]
   \<and> events (on_joinEvent s sid room now) = events s"
  by (simp add: on_joinEvent_def socket_join_def room_size_def emit_def Let_def
      split: option.splits)

end
